theory Spec2Isabelle
  imports Complex_Main
begin

section \<open>Values of the client: parsed JSON\<close>

text \<open>
  The client (script.js, and its earlier version with the same functions) works on the
  value that \<^verbatim>\<open>JSON.parse\<close> or \<^verbatim>\<open>resp.json()\<close> gives. A JavaScript string is a
  list of characters here. A number is held as the text that \<^verbatim>\<open>String(n)\<close> gives for
  it (\<open>''0''\<close> for both zeros): the client only prints a number and tests whether it is
  zero. An object is the list of its own properties in the order \<^verbatim>\<open>Object.keys\<close>
  gives; a lookup takes the first binding of a key.
\<close>

datatype json =
    JNull
  | JBool bool
  | JNum string
  | JStr string
  | JArr "json list"
  | JObj "(string \<times> json) list"

text \<open>Truthiness, as \<^verbatim>\<open>if (v)\<close>, \<^verbatim>\<open>v && w\<close> and \<^verbatim>\<open>v || w\<close> test it.\<close>

fun truthy :: "json \<Rightarrow> bool" where
  "truthy JNull = False"
| "truthy (JBool b) = b"
| "truthy (JNum n) = (n \<noteq> ''0'')"
| "truthy (JStr s) = (s \<noteq> [])"
| "truthy (JArr _) = True"
| "truthy (JObj _) = True"

text \<open>Decimal text of a natural number: \<^verbatim>\<open>String(i)\<close> for an index or a count.\<close>

fun string_of_nat :: "nat \<Rightarrow> string" where
  "string_of_nat n =
     (if n < 10 then [''0123456789'' ! n]
      else string_of_nat (n div 10) @ [''0123456789'' ! (n mod 10)])"

declare string_of_nat.simps [simp del]

text \<open>
  \<^verbatim>\<open>v[k]\<close> and \<^verbatim>\<open>v.k\<close> on a value other than \<^verbatim>\<open>null\<close>: \<open>None\<close> is \<^verbatim>\<open>undefined\<close>.
  These are the own properties: an object has its bindings, an array and a string
  have their indices and \<^verbatim>\<open>length\<close>. A member inherited from a prototype (a
  key such as \<^verbatim>\<open>constructor\<close>) is not a value of the JSON; no prototype has a
  member named \<^verbatim>\<open>features\<close>, \<^verbatim>\<open>properties\<close> or \<^verbatim>\<open>length\<close>, the names the
  loader reads, and \<open>cell\<close> below, which reads any key, takes the inherited
  members as well. On \<^verbatim>\<open>null\<close> the access throws; the callers below test for
  \<^verbatim>\<open>null\<close> before they use \<open>member\<close>.
\<close>

fun member :: "json \<Rightarrow> string \<Rightarrow> json option" where
  "member (JObj ps) k = map_of ps k"
| "member (JArr xs) k =
     (if k = ''length'' then Some (JNum (string_of_nat (length xs)))
      else (case find (\<lambda>i. string_of_nat i = k) [0..<length xs] of
              Some i \<Rightarrow> Some (xs ! i)
            | None \<Rightarrow> None))"
| "member (JStr s) k =
     (if k = ''length'' then Some (JNum (string_of_nat (length s)))
      else (case find (\<lambda>i. string_of_nat i = k) [0..<length s] of
              Some i \<Rightarrow> Some (JStr [s ! i])
            | None \<Rightarrow> None))"
| "member _ k = None"

text \<open>\<^verbatim>\<open>Object.keys(v)\<close> for a truthy value.\<close>

fun Object_keys :: "json \<Rightarrow> string list" where
  "Object_keys (JObj ps) = map fst ps"
| "Object_keys (JArr xs) = map string_of_nat [0..<length xs]"
| "Object_keys (JStr s) = map string_of_nat [0..<length s]"
| "Object_keys _ = []"

section \<open>Layers, selection and the state of the page\<close>

text \<open>
  A layer of \<^verbatim>\<open>geojsonLayer\<close>: its \<^verbatim>\<open>_leaflet_id\<close>, its \<^verbatim>\<open>feature\<close>, and
  whether it has \<^verbatim>\<open>getLatLng\<close> (a marker, at a point \<open>'p\<close>), \<^verbatim>\<open>getBounds\<close> (a path
  or a group, with bounds \<open>'b\<close>) or neither.
\<close>

datatype ('p, 'b) geom = HasLatLng 'p | HasBounds 'b | NoGeom

record ('p, 'b) layer =
  leaflet_id :: nat
  feature :: json
  geom :: "('p, 'b) geom"

text \<open>A value of the \<^verbatim>\<open>selected\<close> Map: \<^verbatim>\<open>{ feature, layer }\<close>.\<close>

record ('p, 'b) entry =
  e_feature :: json
  e_layer :: "('p, 'b) layer"

text \<open>
  The three globals: the layers of \<^verbatim>\<open>geojsonLayer\<close> in \<^verbatim>\<open>eachLayer\<close> order, the
  \<^verbatim>\<open>selected\<close> Map in insertion order, and \<^verbatim>\<open>allPropertyKeys\<close>.
\<close>

record ('p, 'b) state =
  layers :: "('p, 'b) layer list"
  selected :: "(nat \<times> ('p, 'b) entry) list"
  allPropertyKeys :: "string list"

text \<open>The Map operations the code uses; \<^verbatim>\<open>set\<close> of a new key appends.\<close>

definition map_has :: "(nat \<times> 'v) list \<Rightarrow> nat \<Rightarrow> bool" where
  "map_has m k = (k \<in> fst ` set m)"

definition map_set :: "(nat \<times> 'v) list \<Rightarrow> nat \<Rightarrow> 'v \<Rightarrow> (nat \<times> 'v) list" where
  "map_set m k v =
     (if map_has m k then map (\<lambda>(k', v'). if k' = k then (k', v) else (k', v')) m
      else m @ [(k, v)])"

definition map_delete :: "(nat \<times> 'v) list \<Rightarrow> nat \<Rightarrow> (nat \<times> 'v) list" where
  "map_delete m k = filter (\<lambda>(k', v'). k' \<noteq> k) m"

section \<open>loadGeoJSON\<close>

text \<open>
  \<^verbatim>\<open>geojsonLayer.addData(obj)\<close> is Leaflet's: it is a parameter of the model. It
  either returns, having added layers, or throws, having added some layers before.
\<close>

datatype 'l add_result = Added "'l list" | AddThrew "'l list"

text \<open>\<^verbatim>\<open>if (!allPropertyKeys.includes(k)) allPropertyKeys.push(k)\<close>\<close>

definition push_new :: "string list \<Rightarrow> string \<Rightarrow> string list" where
  "push_new keys k = (if k \<in> set keys then keys else keys @ [k])"

text \<open>\<^verbatim>\<open>Object.keys(p).forEach(k => ...)\<close>\<close>

definition add_keys :: "string list \<Rightarrow> json \<Rightarrow> string list" where
  "add_keys keys p = foldl push_new keys (Object_keys p)"

text \<open>
  \<^verbatim>\<open>obj.features.forEach(f => { if (f.properties) ... })\<close>: the keys collected, and
  whether the loop threw (reading \<^verbatim>\<open>properties\<close> of a \<^verbatim>\<open>null\<close> element).
\<close>

fun scan_features :: "string list \<Rightarrow> json list \<Rightarrow> string list \<times> bool" where
  "scan_features keys [] = (keys, False)"
| "scan_features keys (f # fs) =
     (if f = JNull then (keys, True)
      else (case member f ''properties'' of
              Some p \<Rightarrow>
                if truthy p then scan_features (add_keys keys p) fs
                else scan_features keys fs
            | None \<Rightarrow> scan_features keys fs))"

text \<open>\<^verbatim>\<open>obj.features.length\<close> is truthy.\<close>

definition has_length :: "json \<Rightarrow> bool" where
  "has_length fs = (case member fs ''length'' of Some n \<Rightarrow> truthy n | None \<Rightarrow> False)"

text \<open>
  Lines 98 to 107 of script.js, starting from \<^verbatim>\<open>allPropertyKeys = []\<close>. Reading
  \<^verbatim>\<open>features\<close> of \<^verbatim>\<open>null\<close> throws; only an array has \<^verbatim>\<open>forEach\<close>.
\<close>

definition compute_keys :: "json \<Rightarrow> string list \<times> bool" where
  "compute_keys obj =
     (if obj = JNull then ([], True)
      else (case member obj ''features'' of
              None \<Rightarrow> ([], False)
            | Some fs \<Rightarrow>
                if truthy fs \<and> has_length fs
                then (case fs of JArr xs \<Rightarrow> scan_features [] xs | _ \<Rightarrow> ([], True))
                else ([], False)))"

text \<open>
  \<^verbatim>\<open>loadGeoJSON(obj)\<close>: the state it leaves and whether it threw. The layer group,
  the selection and the key list are cleared before \<^verbatim>\<open>addData\<close> is called.
\<close>

definition loadGeoJSON ::
  "(json \<Rightarrow> ('p, 'b) layer add_result) \<Rightarrow> json \<Rightarrow> ('p, 'b) state \<Rightarrow> ('p, 'b) state \<times> bool" where
  "loadGeoJSON addData obj st =
     (case addData obj of
        AddThrew ls \<Rightarrow> (\<lparr>layers = ls, selected = [], allPropertyKeys = []\<rparr>, True)
      | Added ls \<Rightarrow>
          (let (keys, threw) = compute_keys obj
           in (\<lparr>layers = ls, selected = [], allPropertyKeys = keys\<rparr>, threw)))"

text \<open>
  The handler of the file input. \<^verbatim>\<open>JSON.parse\<close> is the language's: its outcome on
  the text of the file is the input here, a syntax error or the value parsed. The
  \<^verbatim>\<open>catch\<close> covers the parse and \<^verbatim>\<open>loadGeoJSON\<close> alike; the result is the state
  and the text of the alert, if one was shown.
\<close>

datatype raw_import = InvalidEncoding | Parsed json

definition file_onload ::
  "(json \<Rightarrow> ('p, 'b) layer add_result) \<Rightarrow> raw_import \<Rightarrow> ('p, 'b) state
     \<Rightarrow> ('p, 'b) state \<times> string option" where
  "file_onload addData raw st =
     (case raw of
        InvalidEncoding \<Rightarrow> (st, Some ''Invalid GeoJSON file.'')
      | Parsed obj \<Rightarrow>
          (let (st', threw) = loadGeoJSON addData obj st
           in (st', if threw then Some ''Invalid GeoJSON file.'' else None)))"

section \<open>Selection\<close>

text \<open>\<^verbatim>\<open>toggleSelect(layer)\<close>, the click handler of a layer.\<close>

definition toggleSelect :: "('p, 'b) layer \<Rightarrow> ('p, 'b) state \<Rightarrow> ('p, 'b) state" where
  "toggleSelect l st =
     (if map_has (selected st) (leaflet_id l)
      then st\<lparr>selected := map_delete (selected st) (leaflet_id l)\<rparr>
      else st\<lparr>selected :=
             map_set (selected st) (leaflet_id l) \<lparr>e_feature = feature l, e_layer = l\<rparr>\<rparr>)"

text \<open>\<^verbatim>\<open>selectLayer(gLayer)\<close>; the body of the select-all loop is the same code.\<close>

definition selectLayer :: "('p, 'b) layer \<Rightarrow> ('p, 'b) state \<Rightarrow> ('p, 'b) state" where
  "selectLayer g st =
     (if \<not> map_has (selected st) (leaflet_id g)
      then st\<lparr>selected :=
             map_set (selected st) (leaflet_id g) \<lparr>e_feature = feature g, e_layer = g\<rparr>\<rparr>
      else st)"

definition select_all :: "('p, 'b) state \<Rightarrow> ('p, 'b) state" where
  "select_all st = foldl (\<lambda>s l. selectLayer l s) st (layers st)"

text \<open>The handlers of deselect-all and clear-selection have the same body.\<close>

definition clear_selection :: "('p, 'b) state \<Rightarrow> ('p, 'b) state" where
  "clear_selection st = st\<lparr>selected := []\<rparr>"

text \<open>
  The handler of \<^verbatim>\<open>L.Draw.Event.CREATED\<close> for a rectangle with bounds \<open>r\<close>.
  \<^verbatim>\<open>rectBounds.contains\<close> and \<^verbatim>\<open>rectBounds.intersects\<close> are Leaflet's and are
  parameters. A layer with \<^verbatim>\<open>getLatLng\<close> is tested by its point, otherwise one with
  \<^verbatim>\<open>getBounds\<close> by its bounds.
\<close>

definition rect_step ::
  "('r \<Rightarrow> 'p \<Rightarrow> bool) \<Rightarrow> ('r \<Rightarrow> 'b \<Rightarrow> bool) \<Rightarrow> 'r
     \<Rightarrow> ('p, 'b) state \<Rightarrow> ('p, 'b) layer \<Rightarrow> ('p, 'b) state" where
  "rect_step contains intersects r st g =
     (case geom g of
        HasLatLng p \<Rightarrow> if contains r p then selectLayer g st else st
      | HasBounds b \<Rightarrow> if intersects r b then selectLayer g st else st
      | NoGeom \<Rightarrow> st)"

definition rect_select ::
  "('r \<Rightarrow> 'p \<Rightarrow> bool) \<Rightarrow> ('r \<Rightarrow> 'b \<Rightarrow> bool) \<Rightarrow> 'r
     \<Rightarrow> ('p, 'b) state \<Rightarrow> ('p, 'b) state" where
  "rect_select contains intersects r st =
     foldl (rect_step contains intersects r) st (layers st)"

section \<open>Attribute table and CSV export\<close>

text \<open>\<^verbatim>\<open>feature.properties || {}\<close>\<close>

definition props_of :: "json \<Rightarrow> json" where
  "props_of f =
     (case member f ''properties'' of
        Some p \<Rightarrow> if truthy p then p else JObj []
      | None \<Rightarrow> JObj [])"

text \<open>\<^verbatim>\<open>xs.join(sep)\<close> on strings.\<close>

fun join :: "string \<Rightarrow> string list \<Rightarrow> string" where
  "join sep [] = []"
| "join sep [x] = x"
| "join sep (x # y # ys) = x @ sep @ join sep (y # ys)"

text \<open>
  \<^verbatim>\<open>String(v)\<close>: an array prints its elements joined by commas, with \<^verbatim>\<open>null\<close>
  elements empty; an object prints as \<^verbatim>\<open>[object Object]\<close>.
\<close>

fun String_js :: "json \<Rightarrow> string" where
  "String_js JNull = ''null''"
| "String_js (JBool b) = (if b then ''true'' else ''false'')"
| "String_js (JNum n) = n"
| "String_js (JStr s) = s"
| "String_js (JArr xs) = join '','' (map (\<lambda>x. if x = JNull then [] else String_js x) xs)"
| "String_js (JObj _) = ''[object Object]''"

text \<open>
  \<^verbatim>\<open>props[k] !== undefined ? String(props[k]) : ''\<close>. The lookup finds an own
  property first, then a member that \<^verbatim>\<open>props\<close> inherits from its prototype
  (\<^verbatim>\<open>constructor\<close>, \<^verbatim>\<open>toString\<close>, ...), which is never \<^verbatim>\<open>undefined\<close>. Which
  members a prototype has, and the text \<^verbatim>\<open>String()\<close> prints for one, are the
  engine's: \<open>inherited props k\<close> is that text, if \<^verbatim>\<open>props\<close> inherits \<open>k\<close>, and is a
  parameter of the model.
\<close>

definition cell :: "(json \<Rightarrow> string \<Rightarrow> string option) \<Rightarrow> json \<Rightarrow> string \<Rightarrow> string" where
  "cell inherited props k =
     (case member props k of
        Some v \<Rightarrow> String_js v
      | None \<Rightarrow> (case inherited props k of Some t \<Rightarrow> t | None \<Rightarrow> []))"

text \<open>\<^verbatim>\<open>escapeHtml(s)\<close>: the four characters of the class are replaced.\<close>

definition escape_char :: "char \<Rightarrow> string" where
  "escape_char c =
     (if c = CHR ''&'' then ''&amp;''
      else if c = CHR ''<'' then ''&lt;''
      else if c = CHR ''>'' then ''&gt;''
      else if c = CHR 0x22 then ''&quot;''
      else [c])"

definition escapeHtml :: "string \<Rightarrow> string" where
  "escapeHtml s = concat (map escape_char s)"

text \<open>
  The keys \<^verbatim>\<open>updateAttributeTable\<close> renders: a copy of \<^verbatim>\<open>allPropertyKeys\<close>, or,
  when that is empty and something is selected, the keys of the selected features.
\<close>

definition table_keys :: "('p, 'b) state \<Rightarrow> string list" where
  "table_keys st =
     (let keys = allPropertyKeys st
      in if length keys = 0 \<and> length (selected st) > 0
         then foldl (\<lambda>ks (lid, e). add_keys ks (props_of (e_feature e))) keys (selected st)
         else keys)"

text \<open>
  What is put between the tags of each cell: the header cells (\<^verbatim>\<open>#\<close> and each key as
  it is) and, for the row of one entry with number \<open>i\<close>, the body cells.
\<close>

definition header_cells :: "('p, 'b) state \<Rightarrow> string list" where
  "header_cells st = ''#'' # table_keys st"

definition body_cells ::
  "(json \<Rightarrow> string \<Rightarrow> string option) \<Rightarrow> string list \<Rightarrow> nat \<Rightarrow> json \<Rightarrow> string list" where
  "body_cells inherited keys i f =
     string_of_nat i # map (\<lambda>k. escapeHtml (cell inherited (props_of f) k)) keys"

definition tr :: "string \<Rightarrow> string list \<Rightarrow> string" where
  "tr tag cells =
     ''<tr>'' @ concat (map (\<lambda>c. ''<'' @ tag @ ''>'' @ c @ ''</'' @ tag @ ''>'') cells)
       @ ''</tr>''"

text \<open>
  \<^verbatim>\<open>updateAttributeTable()\<close>: the HTML of the header row and of the body rows, the
  rows numbered from 1 in the order of the Map.
\<close>

definition updateAttributeTable ::
  "(json \<Rightarrow> string \<Rightarrow> string option) \<Rightarrow> ('p, 'b) state \<Rightarrow> string \<times> string list" where
  "updateAttributeTable inherited st =
     (tr ''th'' (header_cells st),
      map (\<lambda>(i, (lid, e)).
             tr ''td'' (body_cells inherited (table_keys st) (Suc i) (e_feature e)))
        (enumerate 0 (selected st)))"

text \<open>
  The handler of export-csv: the array \<^verbatim>\<open>rows\<close>, or the alert when nothing is
  selected. Each field of a data row is quoted, its double quotes doubled; the header
  is the keys joined as they are.
\<close>

definition csv_field :: "string \<Rightarrow> string" where
  "csv_field v = CHR 0x22 # concat (map (\<lambda>c. if c = CHR 0x22 then [c, c] else [c]) v) @ [CHR 0x22]"

definition csv_row ::
  "(json \<Rightarrow> string \<Rightarrow> string option) \<Rightarrow> string list \<Rightarrow> json \<Rightarrow> string" where
  "csv_row inherited keys f =
     join '','' (map (\<lambda>k. csv_field (cell inherited (props_of f) k)) keys)"

definition export_csv_rows ::
  "(json \<Rightarrow> string \<Rightarrow> string option) \<Rightarrow> ('p, 'b) state \<Rightarrow> string + string list" where
  "export_csv_rows inherited st =
     (if length (selected st) = 0 then Inl ''No features selected''
      else (let keys = allPropertyKeys st
            in Inr (join '','' keys
                    # map (\<lambda>(lid, e). csv_row inherited keys (e_feature e)) (selected st))))"


section \<open>The server: GET /blocks and GET /buildings\<close>

text \<open>
  A JavaScript number: not a number, the two infinities, or a finite value.
\<close>

datatype jsnum = NaN | NegInf | Finite real | PosInf

text \<open>
  A value of \<^verbatim>\<open>req.query\<close>: a text, or what the query parser builds for a repeated
  or bracketed parameter (an array or an object), held as the text \<^verbatim>\<open>String()\<close> gives
  for it. An absent parameter is \<open>None\<close>.
\<close>

datatype qval = QStr string | QObj string

record request =
  query_limit :: "qval option"
  query_q :: "qval option"
  query_bbox :: "qval option"

definition qval_truthy :: "qval option \<Rightarrow> bool" where
  "qval_truthy v = (case v of None \<Rightarrow> False | Some (QStr s) \<Rightarrow> s \<noteq> [] | Some (QObj s) \<Rightarrow> True)"

definition qval_String :: "qval \<Rightarrow> string" where
  "qval_String v = (case v of QStr s \<Rightarrow> s | QObj s \<Rightarrow> s)"

text \<open>
  \<^verbatim>\<open>Number(v)\<close>. The conversion of a text to a number is the language's and is the
  parameter \<open>num\<close>; \<^verbatim>\<open>undefined\<close> converts to NaN, an array or object through its text.
\<close>

definition Number_js :: "(string \<Rightarrow> jsnum) \<Rightarrow> qval option \<Rightarrow> jsnum" where
  "Number_js num v = (case v of None \<Rightarrow> NaN | Some w \<Rightarrow> num (qval_String w))"

definition num_truthy :: "jsnum \<Rightarrow> bool" where
  "num_truthy n = (n \<noteq> NaN \<and> n \<noteq> Finite 0)"

fun Math_min :: "jsnum \<Rightarrow> jsnum \<Rightarrow> jsnum" where
  "Math_min NaN _ = NaN"
| "Math_min _ NaN = NaN"
| "Math_min NegInf _ = NegInf"
| "Math_min _ NegInf = NegInf"
| "Math_min PosInf b = b"
| "Math_min a PosInf = a"
| "Math_min (Finite x) (Finite y) = Finite (min x y)"

fun isFinite :: "jsnum \<Rightarrow> bool" where
  "isFinite (Finite _) = True"
| "isFinite _ = False"

text \<open>\<^verbatim>\<open>Math.min(Number(req.query.limit) || 1000, 10000)\<close>\<close>

definition limit_of :: "(string \<Rightarrow> jsnum) \<Rightarrow> request \<Rightarrow> jsnum" where
  "limit_of num req =
     Math_min (let n = Number_js num (query_limit req)
               in if num_truthy n then n else Finite 1000)
              (Finite 10000)"

text \<open>
  \<^verbatim>\<open>s.trim()\<close>: white space is removed at both ends. The white space among the
  characters of this model: tab, line feed, vertical tab, form feed, carriage return,
  space and no-break space.
\<close>

definition is_space :: "char \<Rightarrow> bool" where
  "is_space c = (c \<in> set [CHR 0x09, CHR 0x0A, CHR 0x0B, CHR 0x0C, CHR 0x0D, CHR 0x20, CHR 0xA0])"

definition trim :: "string \<Rightarrow> string" where
  "trim s = rev (dropWhile is_space (rev (dropWhile is_space s)))"

text \<open>\<^verbatim>\<open>req.query.q ? String(req.query.q).trim() : null\<close>\<close>

definition q_of :: "request \<Rightarrow> string option" where
  "q_of req =
     (if qval_truthy (query_q req)
      then (case query_q req of Some v \<Rightarrow> Some (trim (qval_String v)) | None \<Rightarrow> None)
      else None)"

text \<open>\<^verbatim>\<open>s.split(",")\<close>\<close>

fun split_comma :: "string \<Rightarrow> string list" where
  "split_comma [] = [[]]"
| "split_comma (c # cs) =
     (if c = CHR '','' then [] # split_comma cs
      else (case split_comma cs of
              w # ws \<Rightarrow> (c # w) # ws
            | [] \<Rightarrow> [[c]]))"

text \<open>
  \<^verbatim>\<open>req.query.bbox ? req.query.bbox.split(",").map(Number) : null\<close>. Only a text has
  \<^verbatim>\<open>split\<close>: on an array or object the call throws a TypeError.
\<close>

definition bbox_of :: "(string \<Rightarrow> jsnum) \<Rightarrow> request \<Rightarrow> string + jsnum list option" where
  "bbox_of num req =
     (if qval_truthy (query_bbox req)
      then (case query_bbox req of
              Some (QStr s) \<Rightarrow> Inr (Some (map num (split_comma s)))
            | Some (QObj s) \<Rightarrow> Inl ''req.query.bbox.split is not a function''
            | None \<Rightarrow> Inr None)
      else Inr None)"

text \<open>
  The query the handler builds. A clause of \<^verbatim>\<open>where\<close> names its placeholders
  \<^verbatim>\<open>$i\<close> by number; \<^verbatim>\<open>params\<close> holds the values bound to them; the limit is written
  into the text of the query.
\<close>

datatype clause = NameILike nat | StIntersects nat nat nat nat

datatype param = PText string | PNum jsnum

record query =
  from_table :: string
  where_clauses :: "clause list"
  row_limit :: jsnum

definition q_clause :: "string option \<Rightarrow> clause list \<times> param list \<times> nat" where
  "q_clause q =
     (case q of
        Some s \<Rightarrow> if s \<noteq> [] then ([NameILike 1], [PText s], 1) else ([], [], 0)
      | None \<Rightarrow> ([], [], 0))"

definition bbox_clause ::
  "jsnum list option \<Rightarrow> clause list \<times> param list \<times> nat \<Rightarrow> clause list \<times> param list" where
  "bbox_clause bbox acc =
     (let (wh, ps, i) = acc
      in case bbox of
           Some b \<Rightarrow>
             if length b = 4 \<and> list_all isFinite b
             then (wh @ [StIntersects (i + 1) (i + 2) (i + 3) (i + 4)],
                   ps @ [PNum (b ! 0), PNum (b ! 1), PNum (b ! 2), PNum (b ! 3)])
             else (wh, ps)
         | None \<Rightarrow> (wh, ps))"

definition build_query ::
  "string \<Rightarrow> (string \<Rightarrow> jsnum) \<Rightarrow> request \<Rightarrow> string + (query \<times> param list)" where
  "build_query tbl num req =
     (let limit = limit_of num req; q = q_of req
      in case bbox_of num req of
           Inl msg \<Rightarrow> Inl msg
         | Inr bbox \<Rightarrow>
             (let (wh, ps) = bbox_clause bbox (q_clause q)
              in Inr (\<lparr>from_table = tbl, where_clauses = wh, row_limit = limit\<rparr>, ps)))"

text \<open>
  The response. \<^verbatim>\<open>pool.query\<close> is a parameter: it gives the \<^verbatim>\<open>geojson\<close> column of
  the rows of the result (\<open>JNull\<close> for a null), or throws with a message.
  \<^verbatim>\<open>rows?.[0]?.geojson ?? { type: "FeatureCollection", features: [] }\<close> is the body.
\<close>

record response =
  status :: nat
  body :: json
  cache_control :: "string option"

definition empty_collection :: json where
  "empty_collection = JObj [(''type'', JStr ''FeatureCollection''), (''features'', JArr [])]"

definition error_response :: "string \<Rightarrow> response" where
  "error_response msg =
     \<lparr>status = 500, body = JObj [(''error'', JStr msg)], cache_control = None\<rparr>"

definition handler ::
  "string \<Rightarrow> (string \<Rightarrow> jsnum) \<Rightarrow> (query \<Rightarrow> param list \<Rightarrow> string + json list)
     \<Rightarrow> request \<Rightarrow> response" where
  "handler tbl num pool_query req =
     (case build_query tbl num req of
        Inl msg \<Rightarrow> error_response msg
      | Inr (sql, ps) \<Rightarrow>
          (case pool_query sql ps of
             Inl msg \<Rightarrow> error_response msg
           | Inr rows \<Rightarrow>
               \<lparr>status = 200,
                body = (case rows of
                          [] \<Rightarrow> empty_collection
                        | r # _ \<Rightarrow> if r = JNull then empty_collection else r),
                cache_control = Some ''no-store''\<rparr>))"

definition get_blocks ::
  "(string \<Rightarrow> jsnum) \<Rightarrow> (query \<Rightarrow> param list \<Rightarrow> string + json list) \<Rightarrow> request \<Rightarrow> response" where
  "get_blocks = handler ''public.blocks''"

definition get_buildings ::
  "(string \<Rightarrow> jsnum) \<Rightarrow> (query \<Rightarrow> param list \<Rightarrow> string + json list) \<Rightarrow> request \<Rightarrow> response" where
  "get_buildings = handler ''public.buildings''"

text \<open>
  The SQL of the handlers, read on a database given by: the rows of each table; the
  test \<^verbatim>\<open>name ILIKE '%' || $i || '%'\<close> on a row; the test
  \<^verbatim>\<open>ST_Intersects(geom, ST_MakeEnvelope(..., 4326))\<close> on a row; the Feature object
  \<^verbatim>\<open>jsonb_build_object('type','Feature', ...)\<close> of a row; and the row count the
  database reads from the \<^verbatim>\<open>LIMIT\<close> expression, \<open>None\<close> when it rejects it.
\<close>

record 'r database =
  table_rows :: "string \<Rightarrow> 'r list"
  name_ilike :: "'r \<Rightarrow> string \<Rightarrow> bool"
  st_intersects :: "'r \<Rightarrow> jsnum \<Rightarrow> jsnum \<Rightarrow> jsnum \<Rightarrow> jsnum \<Rightarrow> bool"
  feature_json :: "'r \<Rightarrow> json"
  limit_count :: "jsnum \<Rightarrow> nat option"

datatype bound = BName string | BEnvelope jsnum jsnum jsnum jsnum

definition param_at :: "param list \<Rightarrow> nat \<Rightarrow> param option" where
  "param_at ps i = (if 1 \<le> i \<and> i \<le> length ps then Some (ps ! (i - 1)) else None)"

fun bind_clause :: "param list \<Rightarrow> clause \<Rightarrow> bound option" where
  "bind_clause ps (NameILike i) =
     (case param_at ps i of Some (PText s) \<Rightarrow> Some (BName s) | _ \<Rightarrow> None)"
| "bind_clause ps (StIntersects a b c d) =
     (case (param_at ps a, param_at ps b, param_at ps c, param_at ps d) of
        (Some (PNum x1), Some (PNum y1), Some (PNum x2), Some (PNum y2)) \<Rightarrow>
          Some (BEnvelope x1 y1 x2 y2)
      | _ \<Rightarrow> None)"

fun holds :: "'r database \<Rightarrow> 'r \<Rightarrow> bound \<Rightarrow> bool" where
  "holds db r (BName s) = name_ilike db r s"
| "holds db r (BEnvelope x1 y1 x2 y2) = st_intersects db r x1 y1 x2 y2"

text \<open>\<^verbatim>\<open>SELECT * FROM table WHERE ... LIMIT n\<close>: the rows, or the error of the database.\<close>

definition pg_select :: "'r database \<Rightarrow> query \<Rightarrow> param list \<Rightarrow> string + 'r list" where
  "pg_select db sql ps =
     (case those (map (bind_clause ps) (where_clauses sql)) of
        None \<Rightarrow> Inl ''bind message supplies the wrong parameters''
      | Some bs \<Rightarrow>
          (case limit_count db (row_limit sql) of
             None \<Rightarrow> Inl ''invalid LIMIT''
           | Some n \<Rightarrow>
               Inr (take n (filter (\<lambda>r. list_all (holds db r) bs)
                                   (table_rows db (from_table sql))))))"

text \<open>
  The outer query: one row, whose \<^verbatim>\<open>geojson\<close> is the object built around
  \<^verbatim>\<open>COALESCE(jsonb_agg(...), '[]')\<close>; \<^verbatim>\<open>jsonb_agg\<close> over no rows is null.
\<close>

definition jsonb_agg :: "json list \<Rightarrow> json" where
  "jsonb_agg xs = (if xs = [] then JNull else JArr xs)"

definition coalesce :: "json \<Rightarrow> json \<Rightarrow> json" where
  "coalesce a b = (if a = JNull then b else a)"

definition pg_query :: "'r database \<Rightarrow> query \<Rightarrow> param list \<Rightarrow> string + json list" where
  "pg_query db sql ps =
     (case pg_select db sql ps of
        Inl msg \<Rightarrow> Inl msg
      | Inr rs \<Rightarrow>
          Inr [JObj [(''type'', JStr ''FeatureCollection''),
                     (''features'', coalesce (jsonb_agg (map (feature_json db) rs)) (JArr []))]])"

section \<open>Notions used to state the properties\<close>

text \<open>
  The property names of a feature (\<^verbatim>\<open>Object.keys\<close> of its truthy
  \<^verbatim>\<open>properties\<close>), the features of a collection, and all the property names of a
  collection in sequence order, with repetitions.
\<close>

definition feature_keys :: "json \<Rightarrow> string list" where
  "feature_keys f =
     (case member f ''properties'' of
        Some p \<Rightarrow> if truthy p then Object_keys p else []
      | None \<Rightarrow> [])"

definition features_of :: "json \<Rightarrow> json list" where
  "features_of obj = (case member obj ''features'' of Some (JArr fs) \<Rightarrow> fs | _ \<Rightarrow> [])"

definition all_keys :: "json \<Rightarrow> string list" where
  "all_keys obj = concat (map feature_keys (features_of obj))"

text \<open>The position of the first occurrence of \<open>x\<close> in \<open>xs\<close>.\<close>

definition first_index :: "string list \<Rightarrow> string \<Rightarrow> nat" where
  "first_index xs x = length (takeWhile (\<lambda>y. y \<noteq> x) xs)"

text \<open>The test the rectangle handler applies to one layer.\<close>

definition hit ::
  "('r \<Rightarrow> 'p \<Rightarrow> bool) \<Rightarrow> ('r \<Rightarrow> 'b \<Rightarrow> bool) \<Rightarrow> 'r \<Rightarrow> ('p, 'b) layer \<Rightarrow> bool" where
  "hit contains intersects r g =
     (case geom g of
        HasLatLng p \<Rightarrow> contains r p
      | HasBounds b \<Rightarrow> intersects r b
      | NoGeom \<Rightarrow> False)"

text \<open>A sequence of selection operations, applied in order.\<close>

datatype ('p, 'b, 'r) selection_op =
  Toggle "('p, 'b) layer" | SelectAll | RectSelect 'r | Clear

fun apply_op ::
  "('r \<Rightarrow> 'p \<Rightarrow> bool) \<Rightarrow> ('r \<Rightarrow> 'b \<Rightarrow> bool) \<Rightarrow> ('p, 'b) state
     \<Rightarrow> ('p, 'b, 'r) selection_op \<Rightarrow> ('p, 'b) state" where
  "apply_op contains intersects st (Toggle l) = toggleSelect l st"
| "apply_op contains intersects st SelectAll = select_all st"
| "apply_op contains intersects st (RectSelect r) = rect_select contains intersects r st"
| "apply_op contains intersects st Clear = clear_selection st"

definition run_ops ::
  "('r \<Rightarrow> 'p \<Rightarrow> bool) \<Rightarrow> ('r \<Rightarrow> 'b \<Rightarrow> bool) \<Rightarrow> ('p, 'b) state
     \<Rightarrow> ('p, 'b, 'r) selection_op list \<Rightarrow> ('p, 'b) state" where
  "run_ops contains intersects st ops = foldl (apply_op contains intersects) st ops"




text \<open>
  The rows of the table that satisfy every clause of a query with its parameters
  bound, and the rows that the filters of a request match: those of the query the
  handler builds for it.
\<close>

definition matching_rows :: "'r database \<Rightarrow> query \<Rightarrow> param list \<Rightarrow> 'r list" where
  "matching_rows db sql ps =
     (case those (map (bind_clause ps) (where_clauses sql)) of
        None \<Rightarrow> []
      | Some bs \<Rightarrow>
          filter (\<lambda>r. list_all (holds db r) bs) (table_rows db (from_table sql)))"

definition request_rows ::
  "'r database \<Rightarrow> string \<Rightarrow> (string \<Rightarrow> jsnum) \<Rightarrow> request \<Rightarrow> 'r list" where
  "request_rows db tbl num req =
     (case build_query tbl num req of
        Inl msg \<Rightarrow> []
      | Inr (sql, ps) \<Rightarrow> matching_rows db sql ps)"

section \<open>Inputs of the examples\<close>

text \<open>
  \<^verbatim>\<open>Number()\<close> on the texts of the examples. White space at both ends is dropped;
  a blank text is 0; a decimal integer with an optional sign is its value (exact for
  the integers of up to 15 digits that the examples keep to); any other text used
  below is a word, which is not numeric. Texts with a fraction, an exponent, a radix
  prefix or \<^verbatim>\<open>Infinity\<close> are numeric too: none occurs in the examples, and this
  sample does not cover them.
\<close>

fun digits_value :: "nat \<Rightarrow> string \<Rightarrow> nat option" where
  "digits_value acc [] = Some acc"
| "digits_value acc (c # cs) =
     (if c \<in> set ''0123456789'' then digits_value (10 * acc + (of_char c - 48)) cs
      else None)"

definition unsigned_value :: "string \<Rightarrow> nat option" where
  "unsigned_value s = (if s = [] then None else digits_value 0 s)"

definition sample_Number :: "string \<Rightarrow> jsnum" where
  "sample_Number s =
     (case trim s of
        [] \<Rightarrow> Finite 0
      | c # cs \<Rightarrow>
          if c = CHR ''-''
          then (case unsigned_value cs of Some n \<Rightarrow> Finite (- real n) | None \<Rightarrow> NaN)
          else if c = CHR ''+''
          then (case unsigned_value cs of Some n \<Rightarrow> Finite (real n) | None \<Rightarrow> NaN)
          else (case unsigned_value (c # cs) of Some n \<Rightarrow> Finite (real n) | None \<Rightarrow> NaN))"

text \<open>A request with the limit parameter alone.\<close>

definition request_limit :: "string \<Rightarrow> request" where
  "request_limit s = \<lparr>query_limit = Some (QStr s), query_q = None, query_bbox = None\<rparr>"

text \<open>The range the specification gives for the effective limit: from 1 to 10000.\<close>

definition limit_in_range :: "jsnum \<Rightarrow> bool" where
  "limit_in_range n = (case n of Finite x \<Rightarrow> 1 \<le> x \<and> x \<le> 10000 | _ \<Rightarrow> False)"

text \<open>Requests with one parameter, and with none.\<close>

definition request_q :: "string \<Rightarrow> request" where
  "request_q s = \<lparr>query_limit = None, query_q = Some (QStr s), query_bbox = None\<rparr>"

definition request_bbox :: "string \<Rightarrow> request" where
  "request_bbox s = \<lparr>query_limit = None, query_q = None, query_bbox = Some (QStr s)\<rparr>"

definition request_plain :: request where
  "request_plain = \<lparr>query_limit = None, query_q = None, query_bbox = None\<rparr>"

text \<open>
  The request \<^verbatim>\<open>?bbox=1,2&bbox=3,4\<close>: the query parser gives the array of the
  two texts, whose \<^verbatim>\<open>String()\<close> is \<^verbatim>\<open>1,2,3,4\<close>.
\<close>

definition request_bbox_repeated :: request where
  "request_bbox_repeated =
     \<lparr>query_limit = None, query_q = None, query_bbox = Some (QObj ''1,2,3,4'')\<rparr>"

text \<open>
  A database whose tables are empty, and which rejects a \<^verbatim>\<open>LIMIT\<close> that is not a
  finite number from zero up.
\<close>

definition empty_db :: "unit database" where
  "empty_db =
     \<lparr>table_rows = (\<lambda>t. []),
      name_ilike = (\<lambda>r s. False),
      st_intersects = (\<lambda>r x1 y1 x2 y2. False),
      feature_json = (\<lambda>r. JObj [(''type'', JStr ''Feature'')]),
      limit_count = (\<lambda>n. case n of Finite x \<Rightarrow> if x < 0 then None else Some (nat (round x))
                            | _ \<Rightarrow> None)\<rparr>"

text \<open>
  A database whose tables hold two rows, named \<^verbatim>\<open>hall\<close> and \<^verbatim>\<open>depot\<close>, with
  no geometry that meets an envelope. The match on the name is the substring test,
  which is what \<^verbatim>\<open>ILIKE\<close> does for the lower-case texts without \<^verbatim>\<open>%\<close>, \<^verbatim>\<open>_\<close>
  or backslash that the examples use.
\<close>

definition town_db :: "string database" where
  "town_db =
     \<lparr>table_rows = (\<lambda>t. [''hall'', ''depot'']),
      name_ilike = (\<lambda>r s. list_ex (\<lambda>i. take (length s) (drop i r) = s) [0..<Suc (length r)]),
      st_intersects = (\<lambda>r x1 y1 x2 y2. False),
      feature_json = (\<lambda>r. JObj [(''type'', JStr ''Feature''),
                                    (''properties'', JObj [(''name'', JStr r)])]),
      limit_count = (\<lambda>n. case n of Finite x \<Rightarrow> if x < 0 then None else Some (nat (round x))
                            | _ \<Rightarrow> None)\<rparr>"

text \<open>
  The guard \<^verbatim>\<open>bbox.length === 4 && bbox.every(Number.isFinite)\<close> fails on a bbox
  text: the text does not split at commas into four parts, or a part converts to NaN
  or to an infinity. This is the code's test, not the words "a part is not a finite
  number": an empty or blank part converts to 0 and passes.
\<close>

definition bbox_guard_fails :: "(string \<Rightarrow> jsnum) \<Rightarrow> string \<Rightarrow> bool" where
  "bbox_guard_fails num s =
     (length (split_comma s) \<noteq> 4 \<or> \<not> list_all (\<lambda>c. isFinite (num c)) (split_comma s))"

text \<open>
  Points and boxes with whole coordinates, with the inclusive tests of
  \<^verbatim>\<open>LatLngBounds.contains\<close> and \<^verbatim>\<open>LatLngBounds.intersects\<close>.
\<close>

type_synonym point = "int \<times> int"
type_synonym box = "(int \<times> int) \<times> (int \<times> int)"

definition box_contains :: "box \<Rightarrow> point \<Rightarrow> bool" where
  "box_contains r p =
     (case (r, p) of (((s, w), (n, e)), (lat, lng)) \<Rightarrow>
        s \<le> lat \<and> lat \<le> n \<and> w \<le> lng \<and> lng \<le> e)"

definition box_intersects :: "box \<Rightarrow> box \<Rightarrow> bool" where
  "box_intersects r b =
     (case (r, b) of (((s, w), (n, e)), ((s2, w2), (n2, e2))) \<Rightarrow>
        n2 \<ge> s \<and> s2 \<le> n \<and> e2 \<ge> w \<and> w2 \<le> e)"

text \<open>Features with a Point geometry, and collections of them.\<close>

definition point_feature :: "(string \<times> json) list \<Rightarrow> string \<Rightarrow> string \<Rightarrow> json" where
  "point_feature props lng lat =
     JObj [(''type'', JStr ''Feature''),
           (''properties'', JObj props),
           (''geometry'', JObj [(''type'', JStr ''Point''),
                                (''coordinates'', JArr [JNum lng, JNum lat])])]"

definition collection :: "json list \<Rightarrow> json" where
  "collection fs = JObj [(''type'', JStr ''FeatureCollection''), (''features'', JArr fs)]"

definition feature_a :: json where
  "feature_a = point_feature [(''id'', JNum ''1''), (''city'', JStr ''X'')] ''0'' ''0''"

definition feature_b :: json where
  "feature_b = point_feature [(''city'', JStr ''Y''), (''zone'', JStr ''Z'')] ''5'' ''5''"

definition feature_markup :: json where
  "feature_markup = point_feature [(''<b>'', JStr ''1 < 2'')] ''0'' ''0''"

definition lone_feature :: json where
  "lone_feature = point_feature [(''name'', JStr ''Hall'')] ''0'' ''0''"

text \<open>
  What \<^verbatim>\<open>addData\<close> does on the values of the examples: a marker for each Point
  feature of a collection, one marker for a lone Feature; on \<^verbatim>\<open>null\<close> (and on
  anything else here) it throws before it adds a layer.
\<close>

definition marker :: "nat \<Rightarrow> json \<Rightarrow> point \<Rightarrow> (point, box) layer" where
  "marker i f p = \<lparr>leaflet_id = i, feature = f, geom = HasLatLng p\<rparr>"

definition sample_addData :: "json \<Rightarrow> (point, box) layer add_result" where
  "sample_addData obj =
     (if obj = collection [feature_a, feature_b]
      then Added [marker 41 feature_a (0, 0), marker 42 feature_b (5, 5)]
      else if obj = collection [feature_markup] then Added [marker 43 feature_markup (0, 0)]
      else if obj = lone_feature then Added [marker 44 lone_feature (0, 0)]
      else AddThrew [])"

definition empty_state :: "(point, box) state" where
  "empty_state = \<lparr>layers = [], selected = [], allPropertyKeys = []\<rparr>"

text \<open>
  The members an object inherits from \<^verbatim>\<open>Object.prototype\<close>, with the text that
  \<^verbatim>\<open>String()\<close> prints for them in Node and Chrome. The properties of the examples
  are objects; the prototypes of arrays, strings and numbers are not listed.
\<close>

definition sample_inherited :: "json \<Rightarrow> string \<Rightarrow> string option" where
  "sample_inherited props k =
     (case props of
        JObj ps \<Rightarrow>
          if k = ''constructor'' then Some ''function Object() { [native code] }''
          else if k \<in> set [''toString'', ''toLocaleString'', ''valueOf'', ''hasOwnProperty'',
                            ''isPrototypeOf'', ''propertyIsEnumerable'', ''__defineGetter__'',
                            ''__defineSetter__'', ''__lookupGetter__'', ''__lookupSetter__'']
          then Some (''function '' @ k @ ''() { [native code] }'')
          else if k = ''__proto__'' then Some ''[object Object]''
          else None
      | _ \<Rightarrow> None)"

text \<open>The states that loading these values leaves.\<close>

definition state_ab :: "(point, box) state" where
  "state_ab =
     \<lparr>layers = [marker 41 feature_a (0, 0), marker 42 feature_b (5, 5)], selected = [],
      allPropertyKeys = [''id'', ''city'', ''zone'']\<rparr>"

definition state_lone :: "(point, box) state" where
  "state_lone = \<lparr>layers = [marker 44 lone_feature (0, 0)], selected = [], allPropertyKeys = []\<rparr>"

definition state_markup :: "(point, box) state" where
  "state_markup =
     \<lparr>layers = [marker 43 feature_markup (0, 0)], selected = [], allPropertyKeys = [''<b>'']\<rparr>"

section \<open>Properties\<close>

subsection \<open>Values of the sample conversion\<close>

lemma unsigned_values:
  "unsigned_value ''0'' = Some 0"
  "unsigned_value ''1'' = Some 1"
  "unsigned_value ''2'' = Some 2"
  "unsigned_value ''5'' = Some 5"
  "unsigned_value ''999999'' = Some 999999"
  "unsigned_value ''abc'' = None"
  "unsigned_value ''x'' = None"
  by (simp_all add: unsigned_value_def)

lemma trim_values:
  "trim ''-5'' = ''-5''"
  "trim ''0'' = ''0''"
  "trim ''1'' = ''1''"
  "trim ''2'' = ''2''"
  "trim ''5'' = ''5''"
  "trim ''999999'' = ''999999''"
  "trim ''abc'' = ''abc''"
  "trim ''x'' = ''x''"
  "trim [] = []"
  by code_simp+

lemma sample_Number_values:
  "sample_Number ''-5'' = Finite (-5)"
  "sample_Number ''0'' = Finite 0"
  "sample_Number ''1'' = Finite 1"
  "sample_Number ''2'' = Finite 2"
  "sample_Number ''5'' = Finite 5"
  "sample_Number ''999999'' = Finite 999999"
  "sample_Number ''abc'' = NaN"
  "sample_Number ''x'' = NaN"
  "sample_Number [] = Finite 0"
  by (simp_all add: sample_Number_def unsigned_values trim_values)

subsection \<open>C2: the effective row limit\<close>

text \<open>
  C2, as stated, fails: for \<^verbatim>\<open>limit=-5\<close> the effective limit is \<open>-5\<close>, below 1.
  The handlers apply \<^verbatim>\<open>Math.min\<close> only; nothing raises a low value.
\<close>

theorem limit_negative_counterexample:
  "limit_of sample_Number (request_limit ''-5'') = Finite (-5)
   \<and> \<not> limit_in_range (limit_of sample_Number (request_limit ''-5''))"
  by (simp add: limit_of_def Number_js_def qval_String_def sample_Number_values num_truthy_def
      request_limit_def limit_in_range_def)

text \<open>
  C2, amended: the effective limit of \<^verbatim>\<open>/blocks\<close> and \<^verbatim>\<open>/buildings\<close> is 1000 when
  the limit parameter is absent, converts to NaN (non-numeric) or to zero; otherwise
  it is the smaller of the converted value and 10000, so it is never above 10000.
  There is no lower bound: a negative value is passed on as it is.
\<close>

theorem limit_of_effective:
  "limit_of num req =
     (case Number_js num (query_limit req) of
        NaN \<Rightarrow> Finite 1000
      | NegInf \<Rightarrow> NegInf
      | Finite x \<Rightarrow> if x = 0 then Finite 1000 else Finite (min x 10000)
      | PosInf \<Rightarrow> Finite 10000)
   \<and> limit_of num (req\<lparr>query_limit := None\<rparr>) = Finite 1000"
  by (simp add: limit_of_def num_truthy_def Number_js_def split: jsnum.splits)

theorem limit_of_effective_witness:
  "limit_of sample_Number (request_limit ''999999'') = Finite 10000
   \<and> limit_of sample_Number (request_limit ''0'') = Finite 1000
   \<and> limit_of sample_Number (request_limit ''abc'') = Finite 1000
   \<and> limit_of sample_Number (request_limit ''5'') = Finite 5"
  using limit_of_effective [of sample_Number "request_limit ''999999''"]
    limit_of_effective [of sample_Number "request_limit ''0''"]
    limit_of_effective [of sample_Number "request_limit ''abc''"]
    limit_of_effective [of sample_Number "request_limit ''5''"]
  by (simp add: Number_js_def qval_String_def sample_Number_values request_limit_def)

subsection \<open>The query built from the parameters\<close>

lemma trim_all_space: "list_all is_space s \<Longrightarrow> trim s = []"
  by (auto simp: trim_def list_all_iff dest: set_dropWhileD)

lemma q_of_blank:
  assumes "query_q req = Some v" "list_all is_space (qval_String v)"
  shows "q_clause (q_of req) = ([], [], 0)"
  using assms by (simp add: q_of_def q_clause_def trim_all_space)

lemma q_of_absent: "q_clause (q_of (req\<lparr>query_q := None\<rparr>)) = ([], [], 0)"
  by (simp add: q_of_def q_clause_def qval_truthy_def)

lemma bbox_clause_names:
  "bbox_clause b ([], [], 0) = (wh, ps) \<Longrightarrow> NameILike i \<notin> set wh \<and> PText t \<notin> set ps"
  by (auto simp: bbox_clause_def split: option.splits if_splits)

lemma q_clause_no_bbox: "q_clause q = (wh, ps, i) \<Longrightarrow> StIntersects a b c d \<notin> set wh"
  by (auto simp: q_clause_def split: option.splits if_splits)

subsection \<open>C10: an empty or blank q\<close>

text \<open>
  C10: for a request to \<^verbatim>\<open>/blocks\<close> or \<^verbatim>\<open>/buildings\<close> (any table name \<open>tbl\<close>)
  whose \<^verbatim>\<open>q\<close> is empty or holds white space only, the query built and the response
  are those of the same request without \<^verbatim>\<open>q\<close>, and the query has no substring
  clause and binds no text parameter: \<^verbatim>\<open>q\<close> is trimmed before it is tested.
\<close>

theorem blank_q_is_absent:
  assumes "query_q req = Some v" and "list_all is_space (qval_String v)"
  shows "build_query tbl num req = build_query tbl num (req\<lparr>query_q := None\<rparr>)
    \<and> handler tbl num pool_query req = handler tbl num pool_query (req\<lparr>query_q := None\<rparr>)
    \<and> (\<forall>sql ps. build_query tbl num req = Inr (sql, ps) \<longrightarrow>
          (\<forall>i. NameILike i \<notin> set (where_clauses sql)) \<and> (\<forall>t. PText t \<notin> set ps))"
proof -
  have bb: "bbox_of num (req\<lparr>query_q := None\<rparr>) = bbox_of num req"
    by (simp add: bbox_of_def)
  have ll: "limit_of num (req\<lparr>query_q := None\<rparr>) = limit_of num req"
    by (simp add: limit_of_def)
  have eq: "build_query tbl num req = build_query tbl num (req\<lparr>query_q := None\<rparr>)"
    by (simp only: build_query_def Let_def bb ll q_of_blank [OF assms] q_of_absent [of req])
  have no: "(\<forall>i. NameILike i \<notin> set (where_clauses sql)) \<and> (\<forall>t. PText t \<notin> set ps)"
    if "build_query tbl num req = Inr (sql, ps)" for sql ps
    using that q_of_blank [OF assms]
    by (auto simp: build_query_def split: sum.splits prod.splits dest: bbox_clause_names)
  from eq no show ?thesis by (simp add: handler_def)
qed

theorem blank_q_is_absent_witness:
  "build_query ''public.buildings'' sample_Number (request_q ''  '')
     = Inr (\<lparr>from_table = ''public.buildings'', where_clauses = [], row_limit = Finite 1000\<rparr>, [])
   \<and> build_query ''public.buildings'' sample_Number (request_q ''  '')
     = build_query ''public.buildings'' sample_Number request_plain
   \<and> get_buildings sample_Number (pg_query empty_db) (request_q ''  '')
     = get_buildings sample_Number (pg_query empty_db) request_plain"
  using blank_q_is_absent [of "request_q ''  ''" "QStr ''  ''" "''public.buildings''"
      sample_Number "pg_query empty_db"]
  by (simp add: request_q_def request_plain_def qval_String_def is_space_def get_buildings_def
      build_query_def limit_of_def Number_js_def num_truthy_def bbox_of_def qval_truthy_def
      bbox_clause_def q_clause_def q_of_def)

subsection \<open>The bbox guard\<close>

lemma q_clause_cases:
  assumes "q_clause q = (wh, ps, i)"
  shows "(wh = [] \<and> ps = [] \<and> i = 0) \<or> (\<exists>t. wh = [NameILike 1] \<and> ps = [PText t] \<and> i = 1)"
  using assms by (auto simp: q_clause_def split: option.splits if_splits)

lemma four_elems:
  assumes l: "length b = 4"
  shows "\<exists>w x y z. b = [w, x, y, z]"
proof -
  obtain w b1 where 1: "b = w # b1" using l by (cases b) simp_all
  obtain x b2 where 2: "b1 = x # b2" using l 1 by (cases b1) simp_all
  obtain y b3 where 3: "b2 = y # b3" using l 1 2 by (cases b2) simp_all
  obtain z b4 where 4: "b3 = z # b4" using l 1 2 3 by (cases b3) simp_all
  have "b4 = []" using l 1 2 3 4 by simp
  with 1 2 3 4 show ?thesis by simp
qed

lemma bbox_clause_fails:
  "bbox_guard_fails num s \<Longrightarrow>
     bbox_clause (Some (map num (split_comma s))) acc = bbox_clause None acc"
  by (auto simp: bbox_clause_def bbox_guard_fails_def list_all_iff split: prod.splits)

lemma bbox_clause_passes:
  assumes "\<not> bbox_guard_fails num s"
  shows "bbox_clause (Some (map num (split_comma s))) (wh, ps, i)
     = (wh @ [StIntersects (i + 1) (i + 2) (i + 3) (i + 4)],
        ps @ map PNum (map num (split_comma s)))"
proof -
  from assms have len: "length (map num (split_comma s)) = 4"
    and fin: "list_all isFinite (map num (split_comma s))"
    by (simp_all add: bbox_guard_fails_def list_all_iff)
  from four_elems [OF len] obtain w x y z where b: "map num (split_comma s) = [w, x, y, z]"
    by (elim exE)
  from fin show ?thesis unfolding b by (simp add: bbox_clause_def)
qed

lemma split_values:
  "split_comma ''1,2'' = [''1'', ''2'']"
  "split_comma ''1,2,x,5'' = [''1'', ''2'', ''x'', ''5'']"
  "split_comma ''1,2,,5'' = [''1'', ''2'', [], ''5'']"
  by simp_all

subsection \<open>C8: a malformed bbox\<close>

text \<open>
  C8, as stated, fails. The bbox text \<^verbatim>\<open>1,2,,5\<close> has an empty third part, which is
  not a finite number; yet \<^verbatim>\<open>Number('')\<close> is 0, the guard passes, and the query has
  the spatial clause with the parameters 1, 2, 0, 5, unlike the query of the request
  without \<^verbatim>\<open>bbox\<close>. And a repeated \<^verbatim>\<open>bbox\<close> is an array, which has no
  \<^verbatim>\<open>split\<close>: the request is rejected with status 500.
\<close>

theorem empty_part_counterexample:
  "split_comma ''1,2,,5'' = [''1'', ''2'', [], ''5'']
   \<and> build_query ''public.buildings'' sample_Number (request_bbox ''1,2,,5'')
     = Inr (\<lparr>from_table = ''public.buildings'', where_clauses = [StIntersects 1 2 3 4],
             row_limit = Finite 1000\<rparr>,
            [PNum (Finite 1), PNum (Finite 2), PNum (Finite 0), PNum (Finite 5)])
   \<and> build_query ''public.buildings'' sample_Number request_plain
     = Inr (\<lparr>from_table = ''public.buildings'', where_clauses = [], row_limit = Finite 1000\<rparr>, [])
   \<and> get_buildings sample_Number (pg_query empty_db) request_bbox_repeated
     = error_response ''req.query.bbox.split is not a function''"
  by (simp add: split_values sample_Number_values request_bbox_def request_plain_def
      request_bbox_repeated_def get_buildings_def handler_def
      build_query_def limit_of_def Number_js_def num_truthy_def bbox_of_def qval_truthy_def
      bbox_clause_def q_clause_def q_of_def)

text \<open>
  C8, amended: for a request to \<^verbatim>\<open>/blocks\<close> or \<^verbatim>\<open>/buildings\<close> whose \<^verbatim>\<open>bbox\<close> is
  one text, the handler's guard decides. When the text does not split at commas into
  four parts, or a part converts under \<^verbatim>\<open>Number()\<close> to NaN or an infinity, the bbox
  is ignored: the query built and the response are those of the same request without
  \<^verbatim>\<open>bbox\<close>, a query is built, and it has no spatial clause. Otherwise the spatial
  clause is added, its parameters the four converted parts; an empty or blank part
  converts to 0 and counts as finite.
\<close>

theorem bbox_text_guard:
  assumes "query_bbox req = Some (QStr s)"
  shows "(bbox_guard_fails num s \<longrightarrow>
            build_query tbl num req = build_query tbl num (req\<lparr>query_bbox := None\<rparr>)
          \<and> handler tbl num pool_query req
              = handler tbl num pool_query (req\<lparr>query_bbox := None\<rparr>)
          \<and> (\<exists>sql ps. build_query tbl num req = Inr (sql, ps)
                \<and> (\<forall>a b c d. StIntersects a b c d \<notin> set (where_clauses sql))))
       \<and> (\<not> bbox_guard_fails num s \<longrightarrow>
            (\<exists>sql ps i. build_query tbl num req = Inr (sql, ps)
                \<and> StIntersects (i + 1) (i + 2) (i + 3) (i + 4) \<in> set (where_clauses sql)
                \<and> drop i ps = map PNum (map num (split_comma s))))"
proof -
  have none: "bbox_of num (req\<lparr>query_bbox := None\<rparr>) = Inr None"
    by (simp add: bbox_of_def qval_truthy_def)
  have bb: "bbox_of num req = Inr None \<and> s = []
      \<or> bbox_of num req = Inr (Some (map num (split_comma s)))"
    using assms by (simp add: bbox_of_def qval_truthy_def)
  obtain wh ps i where q: "q_clause (q_of req) = (wh, ps, i)"
    by (cases "q_clause (q_of req)") auto
  have il: "i = length ps" using q_clause_cases [OF q] by auto
  have qq: "q_of (req\<lparr>query_bbox := None\<rparr>) = q_of req" by (simp add: q_of_def)
  have ll: "limit_of num (req\<lparr>query_bbox := None\<rparr>) = limit_of num req"
    by (simp add: limit_of_def)
  have b2: "build_query tbl num (req\<lparr>query_bbox := None\<rparr>)
      = Inr (\<lparr>from_table = tbl, where_clauses = wh, row_limit = limit_of num req\<rparr>, ps)"
    using none q qq ll by (simp add: build_query_def bbox_clause_def)
  have fails: "build_query tbl num req
      = Inr (\<lparr>from_table = tbl, where_clauses = wh, row_limit = limit_of num req\<rparr>, ps)"
    if "bbox_guard_fails num s"
    using bb q bbox_clause_fails [OF that] by (auto simp: build_query_def bbox_clause_def)
  have empty_fails: "bbox_guard_fails num []" by (simp add: bbox_guard_fails_def)
  have passes: "build_query tbl num req
      = Inr (\<lparr>from_table = tbl,
               where_clauses = wh @ [StIntersects (i + 1) (i + 2) (i + 3) (i + 4)],
               row_limit = limit_of num req\<rparr>,
             ps @ map PNum (map num (split_comma s)))"
    if "\<not> bbox_guard_fails num s"
  proof -
    from that empty_fails have "s \<noteq> []" by auto
    with bb have "bbox_of num req = Inr (Some (map num (split_comma s)))" by simp
    then show ?thesis
      using q bbox_clause_passes [OF that] by (simp add: build_query_def)
  qed
  show ?thesis
  proof (intro conjI impI)
    assume f: "bbox_guard_fails num s"
    show "build_query tbl num req = build_query tbl num (req\<lparr>query_bbox := None\<rparr>)"
      using fails [OF f] b2 by simp
    then show "handler tbl num pool_query req
        = handler tbl num pool_query (req\<lparr>query_bbox := None\<rparr>)"
      by (simp add: handler_def)
    show "\<exists>sql ps. build_query tbl num req = Inr (sql, ps)
        \<and> (\<forall>a b c d. StIntersects a b c d \<notin> set (where_clauses sql))"
      using fails [OF f] q_clause_no_bbox [OF q] by simp
  next
    assume p: "\<not> bbox_guard_fails num s"
    show "\<exists>sql ps i. build_query tbl num req = Inr (sql, ps)
        \<and> StIntersects (i + 1) (i + 2) (i + 3) (i + 4) \<in> set (where_clauses sql)
        \<and> drop i ps = map PNum (map num (split_comma s))"
      using passes [OF p] il by auto
  qed
qed

theorem bbox_text_guard_witness:
  "bbox_guard_fails sample_Number ''1,2'' \<and> bbox_guard_fails sample_Number ''1,2,x,5''
   \<and> \<not> bbox_guard_fails sample_Number ''1,2,,5''
   \<and> build_query ''public.blocks'' sample_Number (request_bbox ''1,2'')
     = build_query ''public.blocks'' sample_Number request_plain
   \<and> build_query ''public.blocks'' sample_Number (request_bbox ''1,2,x,5'')
     = build_query ''public.blocks'' sample_Number request_plain
   \<and> get_blocks sample_Number (pg_query empty_db) (request_bbox ''1,2'')
     = get_blocks sample_Number (pg_query empty_db) request_plain
   \<and> (\<exists>sql ps i. build_query ''public.blocks'' sample_Number (request_bbox ''1,2,,5'') = Inr (sql, ps)
        \<and> StIntersects (i + 1) (i + 2) (i + 3) (i + 4) \<in> set (where_clauses sql)
        \<and> drop i ps = [PNum (Finite 1), PNum (Finite 2), PNum (Finite 0), PNum (Finite 5)])"
proof -
  have m1: "bbox_guard_fails sample_Number ''1,2''"
    by (simp add: bbox_guard_fails_def split_values)
  have m2: "bbox_guard_fails sample_Number ''1,2,x,5''"
    by (simp add: bbox_guard_fails_def split_values sample_Number_values)
  have m3: "\<not> bbox_guard_fails sample_Number ''1,2,,5''"
    by (simp add: bbox_guard_fails_def split_values sample_Number_values)
  have v: "map PNum (map sample_Number (split_comma ''1,2,,5''))
      = [PNum (Finite 1), PNum (Finite 2), PNum (Finite 0), PNum (Finite 5)]"
    by (simp add: split_values sample_Number_values)
  have r: "query_bbox (request_bbox t) = Some (QStr t)"
    "(request_bbox t)\<lparr>query_bbox := None\<rparr> = request_plain" for t
    by (simp_all add: request_bbox_def request_plain_def)
  show ?thesis
    using m1 m2 m3
      bbox_text_guard [OF r(1) [of "''1,2''"], of sample_Number "''public.blocks''" "pg_query empty_db"]
      bbox_text_guard [OF r(1) [of "''1,2,x,5''"], of sample_Number "''public.blocks''" "pg_query empty_db"]
      bbox_text_guard [OF r(1) [of "''1,2,,5''"], of sample_Number "''public.blocks''" "pg_query empty_db"]
    unfolding r(2) v get_blocks_def by blast
qed

subsection \<open>The queries the handlers build can be bound\<close>

lemma bind_q_clause:
  assumes "q_clause q = (wh, ps, i)"
  shows "\<exists>bs. those (map (bind_clause (ps @ rest)) wh) = Some bs"
  using q_clause_cases [OF assms] by (auto simp: param_at_def)

lemma bind_envelope:
  "bind_clause (ps @ [PNum w, PNum x, PNum y, PNum z])
      (StIntersects (length ps + 1) (length ps + 2) (length ps + 3) (length ps + 4))
    = Some (BEnvelope w x y z)"
  by (simp add: param_at_def nth_append)

lemma those_snoc:
  "those xs = Some bs \<Longrightarrow> those (xs @ [Some b]) = Some (bs @ [b])"
  by (induction xs arbitrary: bs) (auto split: option.splits)

lemma bbox_clause_binds:
  assumes q: "q_clause q = (wh, ps, i)" and b: "bbox_clause bbox (wh, ps, i) = (wh', ps')"
  shows "\<exists>bs. those (map (bind_clause ps') wh') = Some bs"
proof (cases "wh' = wh \<and> ps' = ps")
  case True
  then show ?thesis using bind_q_clause [OF q, of "[]"] by simp
next
  case False
  have il: "i = length ps" using q_clause_cases [OF q] by auto
  from False b obtain c where c: "bbox = Some c" "length c = 4"
    by (auto simp: bbox_clause_def split: option.splits if_splits)
  from four_elems [OF c(2)] obtain w x y z where v: "c = [w, x, y, z]" by (elim exE)
  from False b c v il have w': "wh' = wh @ [StIntersects (length ps + 1) (length ps + 2)
        (length ps + 3) (length ps + 4)]"
    and p': "ps' = ps @ [PNum w, PNum x, PNum y, PNum z]"
    by (auto simp: bbox_clause_def split: if_splits)
  obtain bs where bs: "those (map (bind_clause ps') wh) = Some bs"
    using bind_q_clause [OF q, of "[PNum w, PNum x, PNum y, PNum z]"] p' by auto
  have "those (map (bind_clause ps') wh @ [Some (BEnvelope w x y z)])
      = Some (bs @ [BEnvelope w x y z])"
    using bs by (rule those_snoc)
  then show ?thesis unfolding w' using bind_envelope [of ps w x y z] p' by simp
qed

lemma build_query_binds:
  assumes "build_query tbl num req = Inr (sql, ps)"
  shows "(\<exists>bs. those (map (bind_clause ps) (where_clauses sql)) = Some bs)
    \<and> row_limit sql = limit_of num req \<and> from_table sql = tbl"
proof -
  obtain wh ps0 i where q: "q_clause (q_of req) = (wh, ps0, i)"
    by (cases "q_clause (q_of req)") auto
  from assms obtain bbox where bb: "bbox_of num req = Inr bbox"
    by (auto simp: build_query_def Let_def split: sum.splits)
  obtain wh' ps' where b: "bbox_clause bbox (wh, ps0, i) = (wh', ps')"
    by (cases "bbox_clause bbox (wh, ps0, i)") auto
  from assms bb q b have "sql = \<lparr>from_table = tbl, where_clauses = wh',
      row_limit = limit_of num req\<rparr>" and "ps = ps'"
    by (simp_all add: build_query_def Let_def)
  then show ?thesis using bbox_clause_binds [OF q b] by simp
qed

lemma bbox_of_text:
  "query_bbox req = None \<or> (\<exists>s. query_bbox req = Some (QStr s)) \<Longrightarrow>
     \<exists>bbox. bbox_of num req = Inr bbox"
  by (auto simp: bbox_of_def)

lemma build_query_text:
  assumes "query_bbox req = None \<or> (\<exists>s. query_bbox req = Some (QStr s))"
  shows "\<exists>sql ps. build_query tbl num req = Inr (sql, ps)"
proof -
  from bbox_of_text [OF assms, of num] obtain bbox where "bbox_of num req = Inr bbox" by (elim exE)
  then show ?thesis
    by (cases "bbox_clause bbox (q_clause (q_of req))") (simp add: build_query_def Let_def)
qed

lemma plain_query:
  "build_query tbl sample_Number request_plain
    = Inr (\<lparr>from_table = tbl, where_clauses = [], row_limit = Finite 1000\<rparr>, [])"
  by (simp add: request_plain_def build_query_def limit_of_def Number_js_def num_truthy_def
      bbox_of_def qval_truthy_def bbox_clause_def q_clause_def q_of_def)

lemma negative_limit_query:
  "build_query tbl sample_Number (request_limit ''-5'')
    = Inr (\<lparr>from_table = tbl, where_clauses = [], row_limit = Finite (-5)\<rparr>, [])"
  by (simp add: request_limit_def build_query_def limit_of_def Number_js_def num_truthy_def
      bbox_of_def qval_truthy_def bbox_clause_def q_clause_def q_of_def qval_String_def
      sample_Number_values)

lemma trim_zz: "trim ''zz'' = ''zz''"
  by code_simp

lemma zz_query:
  "build_query tbl sample_Number (request_q ''zz'')
    = Inr (\<lparr>from_table = tbl, where_clauses = [NameILike 1], row_limit = Finite 1000\<rparr>,
           [PText ''zz''])"
  by (simp add: request_q_def build_query_def limit_of_def Number_js_def num_truthy_def
      bbox_of_def qval_truthy_def bbox_clause_def q_clause_def q_of_def qval_String_def trim_zz)

lemma town_names:
  "name_ilike town_db ''hall'' ''zz'' = False"
  "name_ilike town_db ''depot'' ''zz'' = False"
  "name_ilike town_db ''hall'' ''al'' = True"
  by (simp_all add: town_db_def upt_rec)

subsection \<open>C7: no matching rows\<close>

text \<open>
  C7, as stated, fails. For \<^verbatim>\<open>GET /buildings?limit=-5\<close> on an empty table the
  filters match no rows, but the query has \<^verbatim>\<open>LIMIT -5\<close>, the database rejects it,
  and the response is an error with status 500.
\<close>

theorem negative_limit_counterexample:
  "request_rows empty_db ''public.buildings'' sample_Number (request_limit ''-5'') = []
   \<and> get_buildings sample_Number (pg_query empty_db) (request_limit ''-5'')
     = error_response ''invalid LIMIT''
   \<and> status (error_response ''invalid LIMIT'') = 500"
  by (simp add: request_rows_def negative_limit_query matching_rows_def get_buildings_def
      handler_def pg_query_def pg_select_def empty_db_def error_response_def)

text \<open>
  C7, amended: for a request to \<^verbatim>\<open>/blocks\<close> or \<^verbatim>\<open>/buildings\<close> whose \<^verbatim>\<open>bbox\<close> is
  absent or one text and whose effective limit the database accepts as a row count,
  when the filters of the request match no rows the response has status 200 and its
  body is the FeatureCollection with an empty list of features: not null, and not an
  error.
\<close>

theorem no_rows_empty_collection:
  assumes bbox: "query_bbox req = None \<or> (\<exists>s. query_bbox req = Some (QStr s))"
    and lim: "limit_count db (limit_of num req) = Some n"
    and none: "request_rows db tbl num req = []"
  shows "handler tbl num (pg_query db) req
    = \<lparr>status = 200, body = JObj [(''type'', JStr ''FeatureCollection''), (''features'', JArr [])],
       cache_control = Some ''no-store''\<rparr>"
proof -
  from build_query_text [OF bbox, of tbl num] obtain sql ps where b: "build_query tbl num req = Inr (sql, ps)"
    by (elim exE)
  from build_query_binds [OF b] obtain bs
    where bs: "those (map (bind_clause ps) (where_clauses sql)) = Some bs"
      and rl: "row_limit sql = limit_of num req"
    by (elim conjE exE)
  from none b have m: "matching_rows db sql ps = []" by (simp add: request_rows_def)
  have "pg_select db sql ps = Inr (take n (matching_rows db sql ps))"
    using bs rl lim by (simp add: pg_select_def matching_rows_def)
  with m have "pg_select db sql ps = Inr []" by simp
  with b show ?thesis by (simp add: handler_def pg_query_def jsonb_agg_def coalesce_def)
qed

theorem no_rows_empty_collection_witness:
  "request_rows empty_db ''public.buildings'' sample_Number request_plain = []
   \<and> get_buildings sample_Number (pg_query empty_db) request_plain
     = \<lparr>status = 200,
        body = JObj [(''type'', JStr ''FeatureCollection''), (''features'', JArr [])],
        cache_control = Some ''no-store''\<rparr>
   \<and> table_rows town_db ''public.blocks'' = [''hall'', ''depot'']
   \<and> request_rows town_db ''public.blocks'' sample_Number (request_q ''zz'') = []
   \<and> get_blocks sample_Number (pg_query town_db) (request_q ''zz'')
     = \<lparr>status = 200,
        body = JObj [(''type'', JStr ''FeatureCollection''), (''features'', JArr [])],
        cache_control = Some ''no-store''\<rparr>"
proof -
  have b1: "query_bbox request_plain = None \<or> (\<exists>s. query_bbox request_plain = Some (QStr s))"
    by (simp add: request_plain_def)
  have b2: "query_bbox (request_q ''zz'') = None
      \<or> (\<exists>s. query_bbox (request_q ''zz'') = Some (QStr s))"
    by (simp add: request_q_def)
  have l1: "limit_count empty_db (limit_of sample_Number request_plain) = Some 1000"
    by (simp add: empty_db_def limit_of_def Number_js_def num_truthy_def request_plain_def)
  have l2: "limit_count town_db (limit_of sample_Number (request_q ''zz'')) = Some 1000"
    by (simp add: town_db_def limit_of_def Number_js_def num_truthy_def request_q_def)
  have r1: "request_rows empty_db ''public.buildings'' sample_Number request_plain = []"
    by (simp add: request_rows_def plain_query matching_rows_def empty_db_def)
  have t: "table_rows town_db ''public.blocks'' = [''hall'', ''depot'']"
    by (simp add: town_db_def)
  have r2: "request_rows town_db ''public.blocks'' sample_Number (request_q ''zz'') = []"
    using town_names
    by (simp add: request_rows_def zz_query matching_rows_def param_at_def t)
  from no_rows_empty_collection [OF b1 l1 r1] no_rows_empty_collection [OF b2 l2 r2] r1 r2 t
  show ?thesis by (simp add: get_buildings_def get_blocks_def)
qed

subsection \<open>The key union computed by a load\<close>

lemma set_foldl_push_new: "set (foldl push_new ks xs) = set ks \<union> set xs"
  by (induction xs arbitrary: ks) (auto simp: push_new_def)

lemma distinct_foldl_push_new: "distinct ks \<Longrightarrow> distinct (foldl push_new ks xs)"
  by (induction xs arbitrary: ks) (auto simp: push_new_def)

lemma first_index_less: "x \<in> set xs \<Longrightarrow> first_index xs x < length xs"
  unfolding first_index_def by (induction xs) auto

lemma first_index_append: "x \<in> set xs \<Longrightarrow> first_index (xs @ ys) x = first_index xs x"
  unfolding first_index_def by (simp add: takeWhile_append1)

lemma first_index_new: "x \<notin> set xs \<Longrightarrow> first_index (xs @ [x]) x = length xs"
  unfolding first_index_def by (induction xs) auto

lemma push_new_old: "k \<in> set ks \<Longrightarrow> push_new ks k = ks"
  by (simp add: push_new_def)

lemma push_new_fresh: "k \<notin> set ks \<Longrightarrow> push_new ks k = ks @ [k]"
  by (simp add: push_new_def)

lemma digit_not_zero:
  assumes "0 < n" and "n < 10"
  shows "''0123456789'' ! n \<noteq> CHR ''0''"
proof -
  let ?ds = "''123456789''"
  have tail: "\<forall>d\<in>set ?ds. d \<noteq> CHR ''0''" by simp
  from assms obtain m where m: "n = Suc m" "m < length ?ds"
    by (cases n) simp_all
  then have "''0123456789'' ! n = ?ds ! m" by simp
  moreover have "?ds ! m \<in> set ?ds" using m(2) by (rule nth_mem)
  ultimately show ?thesis using tail by metis
qed

lemma string_of_nat_not_empty: "string_of_nat n \<noteq> []"
  by (subst string_of_nat.simps) simp

lemma string_of_nat_not_zero: "0 < n \<Longrightarrow> string_of_nat n \<noteq> ''0''"
proof (cases "n < 10")
  case True
  assume "0 < n"
  with True have d: "''0123456789'' ! n \<noteq> CHR ''0''"
    using digit_not_zero [of n] by blast
  have "string_of_nat n = [''0123456789'' ! n]"
    using True by (subst string_of_nat.simps) simp
  with d show ?thesis by (metis list.inject)
next
  case False
  have "length (string_of_nat n) \<ge> 2"
    using False string_of_nat_not_empty [of "n div 10"]
    by (subst string_of_nat.simps) (cases "string_of_nat (n div 10)"; simp)
  then show ?thesis by auto
qed

lemma sorted_foldl_push_new:
  "sorted_wrt (\<lambda>a b. first_index xs a < first_index xs b) (foldl push_new [] xs)"
proof (induction xs rule: rev_induct)
  case Nil
  show ?case by simp
next
  case (snoc x xs)
  let ?r = "foldl push_new [] xs"
  have sr: "set ?r = set xs" by (simp add: set_foldl_push_new)
  have keep: "sorted_wrt (\<lambda>a b. first_index (xs @ [x]) a < first_index (xs @ [x]) b) ?r"
    using snoc.IH sr
    by (auto simp: first_index_append elim!: sorted_wrt_mono_rel [rotated])
  have step: "foldl push_new [] (xs @ [x]) = push_new ?r x" by simp
  show ?case
  proof (cases "x \<in> set ?r")
    case True
    then show ?thesis using keep by (simp only: step push_new_old [OF True])
  next
    case False
    then have "x \<notin> set xs" using sr by simp
    then have "\<forall>a\<in>set ?r. first_index (xs @ [x]) a < first_index (xs @ [x]) x"
      using sr by (simp add: first_index_append first_index_new first_index_less)
    then have "sorted_wrt (\<lambda>a b. first_index (xs @ [x]) a < first_index (xs @ [x]) b) (?r @ [x])"
      using keep by (simp add: sorted_wrt_append)
    then show ?thesis by (simp only: step push_new_fresh [OF False])
  qed
qed

lemma scan_features_threw: "snd (scan_features keys fs) = (JNull \<in> set fs)"
  by (induction keys fs rule: scan_features.induct) (auto split: option.splits)

lemma scan_features_keys:
  "JNull \<notin> set fs \<Longrightarrow>
     fst (scan_features keys fs) = foldl push_new keys (concat (map feature_keys fs))"
  by (induction keys fs rule: scan_features.induct)
     (auto simp: feature_keys_def add_keys_def split: option.splits)

lemma compute_keys_returned:
  assumes "compute_keys obj = (keys, False)"
  shows "keys = foldl push_new [] (all_keys obj)"
proof (cases "member obj ''features''")
  case None
  then show ?thesis using assms
    by (auto simp: compute_keys_def all_keys_def features_of_def split: if_splits)
next
  case (Some fs)
  show ?thesis
  proof (cases fs)
    case (JArr xs)
    show ?thesis
    proof (cases "xs = []")
      case True
      then show ?thesis using assms Some JArr
        by (auto simp: compute_keys_def all_keys_def features_of_def split: if_splits)
    next
      case False
      then have hl: "has_length fs"
        using JArr by (simp add: has_length_def string_of_nat_not_zero)
      then have sc: "scan_features [] xs = (keys, False)"
        using assms Some JArr by (auto simp: compute_keys_def split: if_splits)
      then have "JNull \<notin> set xs" using scan_features_threw [of "[]" xs] by simp
      then show ?thesis using scan_features_keys [of xs "[]"] sc Some JArr
        by (simp add: all_keys_def features_of_def)
    qed
  qed (use assms Some in \<open>auto simp: compute_keys_def all_keys_def features_of_def split: if_splits\<close>)
qed

lemma load_ab:
  "loadGeoJSON sample_addData (collection [feature_a, feature_b]) empty_state = (state_ab, False)"
  by code_simp

subsection \<open>C5: the key union after a load\<close>

text \<open>
  C5: after a load that returns, the key union has no repetition, holds exactly the
  property names that appear on the features of the collection, and lists them in the
  order of their first appearance in the sequence of features.
\<close>

theorem key_union_first_seen:
  assumes "loadGeoJSON addData obj st = (st', False)"
  shows "distinct (allPropertyKeys st')
    \<and> set (allPropertyKeys st') = set (all_keys obj)
    \<and> sorted_wrt (\<lambda>a b. first_index (all_keys obj) a < first_index (all_keys obj) b)
         (allPropertyKeys st')"
proof -
  from assms obtain ls where "compute_keys obj = (allPropertyKeys st', False)"
    by (auto simp: loadGeoJSON_def split: add_result.splits prod.splits)
  then have "allPropertyKeys st' = foldl push_new [] (all_keys obj)"
    by (rule compute_keys_returned)
  then show ?thesis
    by (simp add: set_foldl_push_new distinct_foldl_push_new sorted_foldl_push_new)
qed

theorem key_union_first_seen_witness:
  "loadGeoJSON sample_addData (collection [feature_a, feature_b]) empty_state = (state_ab, False)
   \<and> all_keys (collection [feature_a, feature_b]) = [''id'', ''city'', ''city'', ''zone'']
   \<and> allPropertyKeys state_ab = [''id'', ''city'', ''zone'']
   \<and> distinct (allPropertyKeys state_ab)
   \<and> set (allPropertyKeys state_ab) = set (all_keys (collection [feature_a, feature_b]))
   \<and> sorted_wrt (\<lambda>a b. first_index (all_keys (collection [feature_a, feature_b])) a
                        < first_index (all_keys (collection [feature_a, feature_b])) b)
        (allPropertyKeys state_ab)"
proof -
  have k: "all_keys (collection [feature_a, feature_b]) = [''id'', ''city'', ''city'', ''zone'']"
    by code_simp
  have a: "allPropertyKeys state_ab = [''id'', ''city'', ''zone'']"
    by (simp add: state_ab_def)
  from key_union_first_seen [OF load_ab] load_ab k a show ?thesis by blast
qed

subsection \<open>Selection only grows under a rectangle\<close>

lemma selectLayer_selected:
  "selected (selectLayer g st) =
     selected st @ (if map_has (selected st) (leaflet_id g) then []
                    else [(leaflet_id g, \<lparr>e_feature = feature g, e_layer = g\<rparr>)])"
  by (simp add: selectLayer_def map_set_def)

lemma selectLayer_rest:
  "layers (selectLayer g st) = layers st"
  "allPropertyKeys (selectLayer g st) = allPropertyKeys st"
  by (simp_all add: selectLayer_def)

lemma selectLayer_id: "map_has (selected st) (leaflet_id g) \<Longrightarrow> selectLayer g st = st"
  by (simp add: selectLayer_def)

lemma selectLayer_has: "map_has (selected (selectLayer g st)) (leaflet_id g)"
  by (simp add: selectLayer_selected map_has_def)

lemma rect_step_hit:
  "rect_step c i r st g = (if hit c i r g then selectLayer g st else st)"
  by (simp add: rect_step_def hit_def split: geom.splits)

lemma rect_step_rest:
  "layers (rect_step c i r st g) = layers st"
  "allPropertyKeys (rect_step c i r st g) = allPropertyKeys st"
  by (simp_all add: rect_step_hit selectLayer_rest)

lemma rect_step_grows: "\<exists>new. selected (rect_step c i r st g) = selected st @ new"
  by (simp add: rect_step_hit selectLayer_selected)

lemma rect_fold_rest:
  "layers (foldl (rect_step c i r) st ls) = layers st"
  "allPropertyKeys (foldl (rect_step c i r) st ls) = allPropertyKeys st"
  by (induction ls arbitrary: st) (simp_all add: rect_step_rest)

lemma rect_fold_grows: "\<exists>new. selected (foldl (rect_step c i r) st ls) = selected st @ new"
proof (induction ls arbitrary: st)
  case Nil
  show ?case by simp
next
  case (Cons g ls)
  obtain n1 where n1: "selected (rect_step c i r st g) = selected st @ n1"
    using rect_step_grows [of c i r st g] by blast
  obtain n2 where "selected (foldl (rect_step c i r) (rect_step c i r st g) ls)
      = selected (rect_step c i r st g) @ n2"
    using Cons.IH [of "rect_step c i r st g"] by blast
  with n1 show ?case by simp
qed

lemma map_has_append: "map_has m k \<Longrightarrow> map_has (m @ n) k"
  by (auto simp: map_has_def)

lemma rect_fold_keeps:
  "map_has (selected st) k \<Longrightarrow> map_has (selected (foldl (rect_step c i r) st ls)) k"
  using rect_fold_grows [of c i r st ls] by (auto simp: map_has_append)

lemma rect_fold_covers:
  "g \<in> set ls \<Longrightarrow> hit c i r g \<Longrightarrow>
     map_has (selected (foldl (rect_step c i r) st ls)) (leaflet_id g)"
proof (induction ls arbitrary: st)
  case Nil
  then show ?case by simp
next
  case (Cons a ls)
  show ?case
  proof (cases "g = a")
    case True
    with Cons.prems have "map_has (selected (rect_step c i r st a)) (leaflet_id g)"
      by (simp add: rect_step_hit selectLayer_has)
    then show ?thesis by (simp add: rect_fold_keeps)
  next
    case False
    with Cons show ?thesis by simp
  qed
qed

lemma rect_fold_fixed:
  "(\<And>g. g \<in> set ls \<Longrightarrow> hit c i r g \<Longrightarrow> map_has (selected st) (leaflet_id g)) \<Longrightarrow>
     foldl (rect_step c i r) st ls = st"
  by (induction ls) (simp_all add: rect_step_hit selectLayer_id)

subsection \<open>C6: rectangle selection is a monotonic union\<close>

text \<open>
  C6: for every selection and rectangle, selecting by the same rectangle a second time
  changes nothing, and a rectangle selection keeps every entry that was selected, in
  its place: the selection before is the front of the selection after.
\<close>

theorem rect_select_monotone_union:
  "rect_select contains intersects r (rect_select contains intersects r st)
     = rect_select contains intersects r st
   \<and> take (length (selected st)) (selected (rect_select contains intersects r st)) = selected st
   \<and> fst ` set (selected st) \<subseteq> fst ` set (selected (rect_select contains intersects r st))"
proof -
  let ?st1 = "rect_select contains intersects r st"
  have l: "layers ?st1 = layers st" by (simp add: rect_select_def rect_fold_rest)
  have "foldl (rect_step contains intersects r) ?st1 (layers st) = ?st1"
    by (rule rect_fold_fixed) (simp add: rect_select_def rect_fold_covers)
  then have idem: "rect_select contains intersects r ?st1 = ?st1"
    using l by (simp add: rect_select_def)
  obtain new where "selected ?st1 = selected st @ new"
    unfolding rect_select_def
    using rect_fold_grows [of contains intersects r st "layers st"] by blast
  with idem show ?thesis by auto
qed

theorem rect_select_monotone_union_witness:
  "map fst (selected (toggleSelect (marker 41 feature_a (0, 0)) state_ab)) = [41]
   \<and> map fst (selected (rect_select box_contains box_intersects ((4, 4), (6, 6))
        (toggleSelect (marker 41 feature_a (0, 0)) state_ab))) = [41, 42]
   \<and> rect_select box_contains box_intersects ((4, 4), (6, 6))
        (rect_select box_contains box_intersects ((4, 4), (6, 6))
          (toggleSelect (marker 41 feature_a (0, 0)) state_ab))
      = rect_select box_contains box_intersects ((4, 4), (6, 6))
          (toggleSelect (marker 41 feature_a (0, 0)) state_ab)"
proof -
  have 1: "map fst (selected (toggleSelect (marker 41 feature_a (0, 0)) state_ab)) = [41]"
    by code_simp
  have 2: "map fst (selected (rect_select box_contains box_intersects ((4, 4), (6, 6))
        (toggleSelect (marker 41 feature_a (0, 0)) state_ab))) = [41, 42]"
    by code_simp
  from 1 2 rect_select_monotone_union [of box_contains box_intersects "((4, 4), (6, 6))"
      "toggleSelect (marker 41 feature_a (0, 0)) state_ab"]
  show ?thesis by blast
qed

subsection \<open>Selection operations leave the key union alone\<close>

lemma select_all_keys: "allPropertyKeys (select_all st) = allPropertyKeys st"
proof -
  have "allPropertyKeys (foldl (\<lambda>s l. selectLayer l s) s0 ls) = allPropertyKeys s0" for s0 ls
    by (induction ls arbitrary: s0) (simp_all add: selectLayer_rest)
  then show ?thesis by (simp add: select_all_def)
qed

lemma apply_op_keys: "allPropertyKeys (apply_op c i st op) = allPropertyKeys st"
  by (cases op)
     (simp_all add: toggleSelect_def select_all_keys rect_select_def rect_fold_rest
        clear_selection_def)

lemma run_ops_keys: "allPropertyKeys (run_ops c i st ops) = allPropertyKeys st"
  unfolding run_ops_def by (induction ops arbitrary: st) (simp_all add: apply_op_keys)

subsection \<open>C3: the keys of the table and of the CSV export\<close>

text \<open>
  C3, as stated, fails for the table. Loading a lone Feature leaves the key union
  empty (the value has no \<^verbatim>\<open>features\<close>), and once its layer is selected
  \<^verbatim>\<open>updateAttributeTable\<close> derives the keys from the selection.
\<close>

theorem table_keys_counterexample:
  "loadGeoJSON sample_addData lone_feature empty_state = (state_lone, False)
   \<and> allPropertyKeys state_lone = []
   \<and> table_keys (run_ops box_contains box_intersects state_lone
        [Toggle (marker 44 lone_feature (0, 0))]) = [''name'']"
  by code_simp

text \<open>
  C3, amended: no sequence of selection operations (toggle, select-all, rectangle
  select, clear) after a load changes \<^verbatim>\<open>allPropertyKeys\<close>; the header of the CSV
  export is always that key union; the table uses it whenever it is not empty or
  nothing is selected; when it is empty and something is selected, the table uses the
  keys of the selected features, in first-seen order.
\<close>

theorem key_union_fixed_by_selection:
  assumes "loadGeoJSON addData obj st0 = (st, threw)"
  shows "allPropertyKeys (run_ops contains intersects st ops) = allPropertyKeys st
    \<and> (\<forall>rows. export_csv_rows inherited (run_ops contains intersects st ops) = Inr rows
          \<longrightarrow> hd rows = join '','' (allPropertyKeys st))
    \<and> (allPropertyKeys st \<noteq> [] \<or> selected (run_ops contains intersects st ops) = []
          \<longrightarrow> table_keys (run_ops contains intersects st ops) = allPropertyKeys st)
    \<and> (allPropertyKeys st = [] \<and> selected (run_ops contains intersects st ops) \<noteq> []
          \<longrightarrow> table_keys (run_ops contains intersects st ops)
              = foldl (\<lambda>ks (lid, e). add_keys ks (props_of (e_feature e))) []
                  (selected (run_ops contains intersects st ops)))"
proof -
  let ?st' = "run_ops contains intersects st ops"
  have k: "allPropertyKeys ?st' = allPropertyKeys st" by (rule run_ops_keys)
  have c: "hd rows = join '','' (allPropertyKeys st)" if "export_csv_rows inherited ?st' = Inr rows" for rows
    using that k by (auto simp: export_csv_rows_def Let_def split: if_splits)
  have t1: "table_keys ?st' = allPropertyKeys st"
    if "allPropertyKeys st \<noteq> [] \<or> selected ?st' = []"
    using that k by (auto simp: table_keys_def Let_def)
  have t2: "table_keys ?st'
      = foldl (\<lambda>ks (lid, e). add_keys ks (props_of (e_feature e))) [] (selected ?st')"
    if "allPropertyKeys st = [] \<and> selected ?st' \<noteq> []"
    using that k by (simp add: table_keys_def Let_def)
  from k c t1 t2 show ?thesis by blast
qed

theorem key_union_fixed_by_selection_witness:
  "loadGeoJSON sample_addData (collection [feature_a, feature_b]) empty_state = (state_ab, False)
   \<and> allPropertyKeys (run_ops box_contains box_intersects state_ab
        [Toggle (marker 41 feature_a (0, 0)), RectSelect ((4, 4), (6, 6)), Clear, SelectAll])
      = [''id'', ''city'', ''zone'']
   \<and> table_keys (run_ops box_contains box_intersects state_ab
        [Toggle (marker 41 feature_a (0, 0)), RectSelect ((4, 4), (6, 6)), Clear, SelectAll])
      = [''id'', ''city'', ''zone'']"
proof -
  have a: "allPropertyKeys state_ab = [''id'', ''city'', ''zone'']"
    by (simp add: state_ab_def)
  from key_union_fixed_by_selection [OF load_ab, of box_contains box_intersects
      "[Toggle (marker 41 feature_a (0, 0)), RectSelect ((4, 4), (6, 6)), Clear, SelectAll]"]
    load_ab a
  show ?thesis by simp
qed

subsection \<open>C1: a load that fails\<close>

text \<open>
  C1, as stated, fails. With two features selected, importing the text \<^verbatim>\<open>null\<close>
  shows the alert, but the layers, the selection and the key union are gone: they are
  cleared before the value is read. And a lone Feature, which is not a
  FeatureCollection, is loaded without an error.
\<close>

theorem failed_load_clears_counterexample:
  "selected (select_all state_ab) \<noteq> []
   \<and> allPropertyKeys (select_all state_ab) = [''id'', ''city'', ''zone'']
   \<and> file_onload sample_addData (Parsed JNull) (select_all state_ab)
      = (empty_state, Some ''Invalid GeoJSON file.'')
   \<and> file_onload sample_addData (Parsed lone_feature) (select_all state_ab) = (state_lone, None)"
  by code_simp

text \<open>
  C1, amended: when the text is not valid JSON the alert is shown and the state is
  unchanged. When the text parses, the alert is shown exactly when
  \<^verbatim>\<open>loadGeoJSON\<close> throws, and in every case the selection is empty afterwards; when
  \<^verbatim>\<open>addData\<close> throws, the state left is the layers added before the throw, no
  selection and no keys: the state before the import is not kept.
\<close>

theorem file_onload_outcomes:
  "file_onload addData InvalidEncoding st = (st, Some ''Invalid GeoJSON file.'')
   \<and> (\<forall>obj st' alert. file_onload addData (Parsed obj) st = (st', alert) \<longrightarrow>
         selected st' = []
       \<and> (alert = (if snd (loadGeoJSON addData obj st) then Some ''Invalid GeoJSON file.'' else None))
       \<and> (\<forall>ls. addData obj = AddThrew ls \<longrightarrow>
             st' = \<lparr>layers = ls, selected = [], allPropertyKeys = []\<rparr>
           \<and> alert = Some ''Invalid GeoJSON file.''))"
  by (auto simp: file_onload_def loadGeoJSON_def Let_def split: add_result.splits prod.splits)

theorem file_onload_outcomes_witness:
  "file_onload sample_addData InvalidEncoding (select_all state_ab)
     = (select_all state_ab, Some ''Invalid GeoJSON file.'')
   \<and> selected (fst (file_onload sample_addData (Parsed JNull) (select_all state_ab))) = []
   \<and> snd (file_onload sample_addData (Parsed JNull) (select_all state_ab))
     = Some ''Invalid GeoJSON file.''"
proof -
  have t: "sample_addData JNull = AddThrew []" by code_simp
  from file_onload_outcomes [of sample_addData "select_all state_ab"] t
  show ?thesis
    by (metis prod.collapse)
qed

subsection \<open>C4: the columns of the CSV export\<close>










subsection \<open>C9: escaping in the attribute table\<close>

text \<open>
  The body cells after the row number are escaped, and hold no markup character. The
  text escaped is that of the own property or, for a key that names a member the
  properties inherit, the text of that member: such a cell is not empty though the
  feature has no such property.
\<close>

lemma inherited_member_cell:
  "cell sample_inherited (JObj []) ''constructor'' = ''function Object() { [native code] }''"
  by (simp add: cell_def sample_inherited_def)

lemma escape_char_no_markup:
  "CHR ''<'' \<notin> set (escape_char c) \<and> CHR ''>'' \<notin> set (escape_char c)
   \<and> CHR 0x22 \<notin> set (escape_char c)"
  by (simp add: escape_char_def)

lemma escapeHtml_no_markup:
  "CHR ''<'' \<notin> set (escapeHtml s) \<and> CHR ''>'' \<notin> set (escapeHtml s)
   \<and> CHR 0x22 \<notin> set (escapeHtml s)"
  using escape_char_no_markup by (induction s) (simp_all add: escapeHtml_def)

lemma body_cells_escaped:
  "c \<in> set (tl (body_cells inherited keys i f)) \<Longrightarrow>
     (\<exists>k\<in>set keys. c = escapeHtml (cell inherited (props_of f) k))
     \<and> CHR ''<'' \<notin> set c \<and> CHR ''>'' \<notin> set c \<and> CHR 0x22 \<notin> set c"
  using escapeHtml_no_markup by (auto simp: body_cells_def)

text \<open>
  C9: the body cells pass through \<^verbatim>\<open>escapeHtml\<close>, but the claim fails for
  the header: a key is written between the tags as it is. For a collection whose
  feature has the property \<^verbatim>\<open><b>\<close>, the header cell is \<^verbatim>\<open><b>\<close>, not its escaping.
\<close>

theorem header_not_escaped:
  "loadGeoJSON sample_addData (collection [feature_markup]) empty_state = (state_markup, False)
   \<and> header_cells (select_all state_markup) = [''#'', ''<b>'']
   \<and> map escapeHtml [''#'', ''<b>''] = [''#'', ''&lt;b&gt;'']
   \<and> updateAttributeTable sample_inherited (select_all state_markup)
      = (''<tr><th>#</th><th><b></th></tr>'', [''<tr><td>1</td><td>1 &lt; 2</td></tr>''])"
  by code_simp

end
